theory Spec2Isabelle
  imports
    Complex_Main
    "HOL-Library.Sublist"
    "HOL-Library.Char_ord"
    "HOL-Library.List_Lexorder"
    "HOL-Library.Product_Lexorder"
begin

section \<open>Python values, errors and strings\<close>

text \<open>
  The client is Python 2 code (\<open>zuora/client.py\<close>). A \<open>str\<close> is a byte string and is
  modelled as \<^typ>\<open>string\<close>. The values a remote record can carry are \<open>None\<close>,
  booleans, integers and strings.
\<close>

datatype pyval = PyNone | PyBool bool | PyInt int | PyStr string

text \<open>
  Every \<open>raise\<close> of the source and every exception of a builtin the source can run into
  is a value of \<open>error\<close>. \<open>ReError\<close> is \<open>re.error\<close> (a pattern that does not compile).
\<close>

datatype error =
    ZuoraException string
  | DoesNotExist string
  | MissingRequired string
  | TypeError
  | KeyError string
  | IndexError
  | AttributeError string
  | ValueError
  | ReError

subsection \<open>Characters\<close>

definition is_upper :: "char \<Rightarrow> bool" where
  \<comment> \<open>the character class \<open>[A-Z]\<close>\<close>
  "is_upper c = (CHR ''A'' \<le> c \<and> c \<le> CHR ''Z'')"

definition is_lower :: "char \<Rightarrow> bool" where
  \<comment> \<open>the character class \<open>[a-z]\<close>\<close>
  "is_lower c = (CHR ''a'' \<le> c \<and> c \<le> CHR ''z'')"

definition is_digit :: "char \<Rightarrow> bool" where
  \<comment> \<open>the character class \<open>[0-9]\<close>\<close>
  "is_digit c = (CHR ''0'' \<le> c \<and> c \<le> CHR ''9'')"

definition char_lower :: "char \<Rightarrow> char" where
  "char_lower c = (if is_upper c then char_of (of_char c + (32::nat)) else c)"

definition py_lower :: "string \<Rightarrow> string" where
  \<comment> \<open>\<open>s.lower()\<close> on a byte string\<close>
  "py_lower s = map char_lower s"

subsection \<open>\<open>str.replace\<close> and \<open>in\<close>\<close>

function py_replace :: "string \<Rightarrow> string \<Rightarrow> string \<Rightarrow> string" where
  "py_replace old new [] = (if old = [] then new else [])"
| "py_replace old new (c # s) =
     (if old = [] then new @ c # py_replace old new s
      else if prefix old (c # s) then new @ py_replace old new (drop (length old) (c # s))
      else c # py_replace old new s)"
  by pat_completeness auto
termination
  by (relation "measure (\<lambda>(old, new, s). length s)") auto

fun py_in :: "string \<Rightarrow> string \<Rightarrow> bool" where
  \<comment> \<open>\<open>sub in s\<close>\<close>
  "py_in sub [] = (sub = [])"
| "py_in sub (c # s) = (prefix sub (c # s) \<or> py_in sub s)"

section \<open>Key normalization: \<open>convert_camel\<close>\<close>

text \<open>
  \<^verbatim>\<open>
  first_cap_re = re.compile('(.)([A-Z][a-z]+)')
  all_cap_re = re.compile('([a-z0-9])([A-Z])')

  def convert_camel(name):
      s1 = first_cap_re.sub(r'\1_\2', name)
      return all_cap_re.sub(r'\1_\2', s1).lower()
  \<close>
  \<open>re.sub\<close> scans from the left; where the pattern matches it writes the replacement and
  goes on after the match, otherwise it copies one character and moves one step.
  \<open>.\<close> is any character but a newline, and \<open>[a-z]+\<close> takes the longest run.
\<close>

function first_cap_re_sub :: "string \<Rightarrow> string" where
  "first_cap_re_sub (a # b # c # s) =
     (if a \<noteq> CHR ''\<newline>'' \<and> is_upper b \<and> is_lower c
      then a # CHR ''_'' # b # takeWhile is_lower (c # s)
             @ first_cap_re_sub (dropWhile is_lower (c # s))
      else a # first_cap_re_sub (b # c # s))"
| "first_cap_re_sub [a, b] = [a, b]"
| "first_cap_re_sub [a] = [a]"
| "first_cap_re_sub [] = []"
  by pat_completeness auto
termination
proof (relation "measure length")
  fix a b c :: char and s :: string
  have "length (dropWhile is_lower (c # s)) \<le> length (c # s)"
    by (rule length_dropWhile_le)
  then show "(dropWhile is_lower (c # s), a # b # c # s) \<in> measure length"
    by simp
qed auto

fun all_cap_re_sub :: "string \<Rightarrow> string" where
  "all_cap_re_sub (a # b # s) =
     (if (is_lower a \<or> is_digit a) \<and> is_upper b
      then a # CHR ''_'' # b # all_cap_re_sub s
      else a # all_cap_re_sub (b # s))"
| "all_cap_re_sub s = s"

definition convert_camel :: "string \<Rightarrow> string" where
  "convert_camel name = py_lower (all_cap_re_sub (first_cap_re_sub name))"

definition normalize_key :: "string \<Rightarrow> string" where
  \<comment> \<open>\<open>key = convert_camel(attr[0].replace("__c", ""))\<close>, as every normalizer has it\<close>
  "normalize_key raw = convert_camel (py_replace ''__c'' '''' raw)"

section \<open>Python builtins the engine relies on\<close>

fun py_truthy :: "pyval \<Rightarrow> bool" where
  "py_truthy PyNone = False"
| "py_truthy (PyBool b) = b"
| "py_truthy (PyInt n) = (n \<noteq> 0)"
| "py_truthy (PyStr s) = (s \<noteq> [])"

function decimal :: "int \<Rightarrow> string" where
  \<comment> \<open>the decimal digits of a number that is not negative\<close>
  "decimal n =
     (if n < 10 then [char_of (48 + n)]
      else decimal (n div 10) @ [char_of (48 + n mod 10)])"
  by pat_completeness auto
termination
  by (relation "measure nat") auto

declare decimal.simps [simp del]

fun py_str :: "pyval \<Rightarrow> string" where
  \<comment> \<open>\<open>str(v)\<close>\<close>
  "py_str PyNone = ''None''"
| "py_str (PyBool b) = (if b then ''True'' else ''False'')"
| "py_str (PyInt n) = (if n < 0 then CHR ''-'' # decimal (- n) else decimal n)"
| "py_str (PyStr s) = s"

fun py_num :: "pyval \<Rightarrow> int option" where
  \<comment> \<open>the number a value is, if it is one (\<open>True\<close> is 1, \<open>False\<close> is 0)\<close>
  "py_num (PyBool b) = Some (if b then 1 else 0)"
| "py_num (PyInt n) = Some n"
| "py_num v = None"

definition py_eq :: "pyval \<Rightarrow> pyval \<Rightarrow> bool" where
  \<comment> \<open>\<open>a == b\<close>, the equality a dictionary compares its keys with\<close>
  "py_eq a b = (a = b \<or> (py_num a \<noteq> None \<and> py_num a = py_num b))"

fun py_add_one :: "pyval \<Rightarrow> error + pyval" where
  \<comment> \<open>\<open>v + 1\<close>: a \<open>str\<close> and an \<open>int\<close> do not add\<close>
  "py_add_one (PyInt n) = Inr (PyInt (n + 1))"
| "py_add_one (PyBool b) = Inr (PyInt ((if b then 1 else 0) + 1))"
| "py_add_one (PyStr s) = Inl TypeError"
| "py_add_one PyNone = Inl TypeError"

text \<open>
  Python 2 orders values of different types: \<open>None\<close> is below every number, numbers
  compare by value (\<open>True\<close> as 1), and every number is below every \<open>str\<close>; two
  \<open>str\<close> compare byte by byte. \<open>py2_order\<close> maps a value to a key of a linear order
  with exactly these comparisons; \<open>sorted\<close> is a stable sort on it, and
  \<open>reverse=True\<close> keeps equal elements in their original order.
\<close>

fun py2_order :: "pyval \<Rightarrow> nat \<times> int \<times> string" where
  "py2_order PyNone = (0, 0, [])"
| "py2_order (PyBool b) = (1, (if b then 1 else 0), [])"
| "py2_order (PyInt n) = (1, n, [])"
| "py2_order (PyStr s) = (2, 0, s)"

definition py_sorted :: "('a \<Rightarrow> pyval) \<Rightarrow> bool \<Rightarrow> 'a list \<Rightarrow> 'a list" where
  \<comment> \<open>\<open>sorted(xs, key=key, reverse=reverse)\<close>\<close>
  "py_sorted key reverse xs =
     (if reverse then rev (sort_key (\<lambda>x. py2_order (key x)) (rev xs))
      else sort_key (\<lambda>x. py2_order (key x)) xs)"

subsection \<open>Dictionaries\<close>

text \<open>
  A \<open>dict\<close> is an association list without repeated keys; \<open>.items()\<close> walks it in
  list order, and a new key is added at the end. (CPython 2 walks a dict in an order of
  its own, which the source does not control; what is proved about order below speaks
  of the order in which the loops meet the entries.) Attribute dictionaries have
  \<open>str\<close> keys; the grouping dictionaries are keyed by record ids, compared by \<open>==\<close>.
\<close>

type_synonym 'v str_dict = "(string \<times> 'v) list"
type_synonym 'v id_dict = "(pyval \<times> 'v) list"
type_synonym attr_dict = "pyval str_dict"

fun sdict_get :: "'v str_dict \<Rightarrow> string \<Rightarrow> 'v option" where
  "sdict_get [] k = None"
| "sdict_get ((k', v) # d) k = (if k' = k then Some v else sdict_get d k)"

fun sdict_set :: "'v str_dict \<Rightarrow> string \<Rightarrow> 'v \<Rightarrow> 'v str_dict" where
  "sdict_set [] k v = [(k, v)]"
| "sdict_set ((k', v') # d) k v = (if k' = k then (k', v) # d else (k', v') # sdict_set d k v)"

definition sdict_get_default :: "'v str_dict \<Rightarrow> string \<Rightarrow> 'v \<Rightarrow> 'v" where
  \<comment> \<open>\<open>d.get(k, default)\<close>\<close>
  "sdict_get_default d k dflt = (case sdict_get d k of None \<Rightarrow> dflt | Some v \<Rightarrow> v)"

fun idict_get :: "'v id_dict \<Rightarrow> pyval \<Rightarrow> 'v option" where
  "idict_get [] k = None"
| "idict_get ((k', v) # d) k = (if py_eq k' k then Some v else idict_get d k)"

fun idict_set :: "'v id_dict \<Rightarrow> pyval \<Rightarrow> 'v \<Rightarrow> 'v id_dict" where
  "idict_set [] k v = [(k, v)]"
| "idict_set ((k', v') # d) k v = (if py_eq k' k then (k', v) # d else (k', v') # idict_set d k v)"

definition idict_get_default :: "'v id_dict \<Rightarrow> pyval \<Rightarrow> 'v \<Rightarrow> 'v" where
  "idict_get_default d k dflt = (case idict_get d k of None \<Rightarrow> dflt | Some v \<Rightarrow> v)"

section \<open>Record normalizers\<close>

text \<open>
  A record of a query response is a suds object: iterating it yields its
  \<open>(name, value)\<close> attributes, and \<open>obj.Name\<close> raises \<open>AttributeError\<close> when the
  response did not carry the attribute.
\<close>

type_synonym zobject = "(string \<times> pyval) list"

definition getattr :: "zobject \<Rightarrow> string \<Rightarrow> error + pyval" where
  "getattr obj name = (case sdict_get obj name of None \<Rightarrow> Inl (AttributeError name) | Some v \<Rightarrow> Inr v)"

text \<open>
  \<^verbatim>\<open>
  for attr in p:
      key = convert_camel(attr[0].replace("__c", ""))
      product_dict[p.Id][key] = attr[1]
  \<close>
  The product normalizer stores the value as it is; the other three store
  \<open>str(attr[1])\<close>.
\<close>

fun camel_attrs :: "(pyval \<Rightarrow> pyval) \<Rightarrow> attr_dict \<Rightarrow> zobject \<Rightarrow> attr_dict" where
  "camel_attrs conv d [] = d"
| "camel_attrs conv d (attr # rest) =
     camel_attrs conv (sdict_set d (normalize_key (fst attr)) (conv (snd attr))) rest"

fun products_loop :: "attr_dict id_dict \<Rightarrow> zobject list \<Rightarrow> error + attr_dict id_dict" where
  "products_loop product_dict [] = Inr product_dict"
| "products_loop product_dict (p # response) =
     (case getattr p ''Id'' of
        Inl e \<Rightarrow> Inl e
      | Inr p_id \<Rightarrow> products_loop (idict_set product_dict p_id (camel_attrs id [] p)) response)"

definition get_camel_converted_products :: "zobject list \<Rightarrow> error + attr_dict id_dict" where
  "get_camel_converted_products response = products_loop [] response"

text \<open>
  The three other normalizers share one body, up to the name of the parent-id
  attribute (here with \<open>product_rate_plan_id=None\<close>, as the engine calls it):
  \<^verbatim>\<open>
  for rp in response:
      product_rate_plan_dict[rp.ProductId] = \
              product_rate_plan_dict.get(rp.ProductId, {})
      product_rate_plan_dict[rp.ProductId][rp.Id] = {}
      for attr in rp:
          key = convert_camel(attr[0].replace("__c", ""))
          product_rate_plan_dict[rp.ProductId][rp.Id][key] = str(attr[1])
  \<close>
\<close>

fun grouped_loop ::
  "string \<Rightarrow> attr_dict id_dict id_dict \<Rightarrow> zobject list \<Rightarrow> error + attr_dict id_dict id_dict"
where
  "grouped_loop parent d [] = Inr d"
| "grouped_loop parent d (r # response) =
     (case getattr r parent of
        Inl e \<Rightarrow> Inl e
      | Inr parent_id \<Rightarrow>
          (case getattr r ''Id'' of
             Inl e \<Rightarrow> Inl e
           | Inr r_id \<Rightarrow>
               grouped_loop parent
                 (idict_set d parent_id
                    (idict_set (idict_get_default d parent_id []) r_id (camel_attrs (\<lambda>v. PyStr (py_str v)) [] r)))
                 response))"

definition get_camel_converted_product_rate_plans ::
  "zobject list \<Rightarrow> error + attr_dict id_dict id_dict" where
  "get_camel_converted_product_rate_plans response = grouped_loop ''ProductId'' [] response"

definition get_camel_converted_product_rate_plan_charges ::
  "zobject list \<Rightarrow> error + attr_dict id_dict id_dict" where
  "get_camel_converted_product_rate_plan_charges response =
     grouped_loop ''ProductRatePlanId'' [] response"

definition get_camel_converted_product_rate_plan_charge_tiers ::
  "zobject list \<Rightarrow> error + attr_dict id_dict id_dict" where
  "get_camel_converted_product_rate_plan_charge_tiers response =
     grouped_loop ''ProductRatePlanChargeId'' [] response"

section \<open>Rate-plan matching: \<open>match_product_rate_plans\<close>\<close>

text \<open>
  The \<open>re\<close> module is not code of the repository. The engine takes, as \<open>re_match\<close>,
  what \<open>re.match(re.compile(pattern, re.IGNORECASE), subject)\<close> does with two strings:
  \<open>Inl ReError\<close> when the pattern does not compile, else whether there is a match.
  \<open>re.compile\<close> of a value that is not a string raises \<open>TypeError\<close>.
\<close>

type_synonym re_match = "string \<Rightarrow> string \<Rightarrow> error + bool"

fun re_compile_match :: "re_match \<Rightarrow> pyval \<Rightarrow> string \<Rightarrow> error + bool" where
  "re_compile_match rematch (PyStr pattern) subject = rematch pattern subject"
| "re_compile_match rematch v subject = Inl TypeError"

text \<open>
  \<^verbatim>\<open>
  priority = rp_dict.get("priority", 0)
  rp_dict["score"] = priority
  if filter_:
      for field, match in filter_.items():
          if rp_dict.get(field):
              p = re.compile(rp_dict[field], re.IGNORECASE)
              if re.match(p, match):
                  rp_dict["score"] += 1
  \<close>
\<close>

fun score_fields :: "re_match \<Rightarrow> attr_dict \<Rightarrow> string str_dict \<Rightarrow> error + attr_dict" where
  "score_fields rematch rp_dict [] = Inr rp_dict"
| "score_fields rematch rp_dict ((field, match) # filter') =
     (if py_truthy (sdict_get_default rp_dict field PyNone)
      then (case re_compile_match rematch (sdict_get_default rp_dict field PyNone) match of
              Inl e \<Rightarrow> Inl e
            | Inr False \<Rightarrow> score_fields rematch rp_dict filter'
            | Inr True \<Rightarrow>
                (case py_add_one (sdict_get_default rp_dict ''score'' PyNone) of
                   Inl e \<Rightarrow> Inl e
                 | Inr score \<Rightarrow> score_fields rematch (sdict_set rp_dict ''score'' score) filter'))
      else score_fields rematch rp_dict filter')"

definition score_rate_plan :: "re_match \<Rightarrow> string str_dict \<Rightarrow> attr_dict \<Rightarrow> error + attr_dict" where
  "score_rate_plan rematch filter' rp_dict =
     score_fields rematch
       (sdict_set rp_dict ''score'' (sdict_get_default rp_dict ''priority'' (PyInt 0))) filter'"

text \<open>
  The joined result. A product of the result is the dictionary \<open>p_dict\<close> with one more
  key, \<open>"rate_plans"\<close>, holding a list; the record keeps the dictionary and the list
  apart. Likewise \<open>"rate_plan_charges"\<close> of a rate plan and
  \<open>"rate_plan_charge_tiers"\<close> of a charge.
\<close>

record matched_charge =
  rpc_dict :: attr_dict
  rate_plan_charge_tiers :: "attr_dict list"

record matched_rate_plan =
  rp_dict :: attr_dict
  rate_plan_charges :: "matched_charge list"

record matched_product =
  p_dict :: attr_dict
  rate_plans :: "matched_rate_plan list"

text \<open>
  \<^verbatim>\<open>
  rpc_list = []
  for _, rpc_dict in product_rate_plan_charge_dict\
                              .get(rate_plan_id, {}).items():
      rpct_list = []
      for (_, rpct_dict) in product_rate_plan_charge_tier_dict\
                  .get(rpc_dict["id"], {}).items():
          rpct_list.append(rpct_dict)
      rpc_dict["rate_plan_charge_tiers"] = rpct_list
      rpc_list.append(rpc_dict)
  \<close>
\<close>

fun charges_loop :: "attr_dict id_dict id_dict \<Rightarrow> attr_dict id_dict \<Rightarrow> error + matched_charge list" where
  "charges_loop product_rate_plan_charge_tier_dict [] = Inr []"
| "charges_loop product_rate_plan_charge_tier_dict ((rpc_id, rpc) # items) =
     (case sdict_get rpc ''id'' of
        None \<Rightarrow> Inl (KeyError ''id'')
      | Some charge_id \<Rightarrow>
          (case charges_loop product_rate_plan_charge_tier_dict items of
             Inl e \<Rightarrow> Inl e
           | Inr rpc_list \<Rightarrow>
               Inr (\<lparr>rpc_dict = rpc,
                      rate_plan_charge_tiers =
                        map snd (idict_get_default product_rate_plan_charge_tier_dict charge_id [])\<rparr>
                    # rpc_list)))"

definition sort_order_key :: "matched_charge \<Rightarrow> pyval" where
  \<comment> \<open>\<open>lambda k: k.get('sort_order', 999)\<close>\<close>
  "sort_order_key k = sdict_get_default (rpc_dict k) ''sort_order'' (PyInt 999)"

definition score_key :: "matched_rate_plan \<Rightarrow> pyval" where
  \<comment> \<open>\<open>lambda k: k.get('score', 0)\<close>\<close>
  "score_key k = sdict_get_default (rp_dict k) ''score'' (PyInt 0)"

text \<open>
  \<^verbatim>\<open>
  rp_list = []
  for rate_plan_id, rp_dict in product_rate_plan_dict\
                                  .get(product_id, {}).items():
      (scoring) (charges)
      rp_dict["rate_plan_charges"] = \
          sorted(rpc_list, key=lambda k: k.get('sort_order', 999))
      rp_list.append(rp_dict)
  \<close>
\<close>

fun rate_plans_loop ::
  "re_match \<Rightarrow> string str_dict \<Rightarrow> attr_dict id_dict id_dict \<Rightarrow> attr_dict id_dict id_dict \<Rightarrow>
     attr_dict id_dict \<Rightarrow> error + matched_rate_plan list"
where
  "rate_plans_loop rematch filter' product_rate_plan_charge_dict product_rate_plan_charge_tier_dict [] = Inr []"
| "rate_plans_loop rematch filter' product_rate_plan_charge_dict product_rate_plan_charge_tier_dict
       ((rate_plan_id, rp) # items) =
     (case score_rate_plan rematch filter' rp of
        Inl e \<Rightarrow> Inl e
      | Inr scored \<Rightarrow>
          (case charges_loop product_rate_plan_charge_tier_dict
                  (idict_get_default product_rate_plan_charge_dict rate_plan_id []) of
             Inl e \<Rightarrow> Inl e
           | Inr rpc_list \<Rightarrow>
               (case rate_plans_loop rematch filter' product_rate_plan_charge_dict
                       product_rate_plan_charge_tier_dict items of
                  Inl e \<Rightarrow> Inl e
                | Inr rp_list \<Rightarrow>
                    Inr (\<lparr>rp_dict = scored,
                           rate_plan_charges = py_sorted sort_order_key False rpc_list\<rparr>
                         # rp_list))))"

text \<open>
  \<^verbatim>\<open>
  for product_id, p_dict in product_dict.items():
      (rate plans)
      p_dict["rate_plans"] = sorted(rp_list,
                                    key=lambda k: k.get('score', 0),
                                    reverse=True)
      matching_rate_plans.append(p_dict)
  return matching_rate_plans
  \<close>
\<close>

fun combine_dictionaries ::
  "re_match \<Rightarrow> string str_dict \<Rightarrow> attr_dict id_dict id_dict \<Rightarrow> attr_dict id_dict id_dict \<Rightarrow>
     attr_dict id_dict id_dict \<Rightarrow> attr_dict id_dict \<Rightarrow> error + matched_product list"
where
  "combine_dictionaries rematch filter' product_rate_plan_dict product_rate_plan_charge_dict
       product_rate_plan_charge_tier_dict [] = Inr []"
| "combine_dictionaries rematch filter' product_rate_plan_dict product_rate_plan_charge_dict
       product_rate_plan_charge_tier_dict ((product_id, p) # items) =
     (case rate_plans_loop rematch filter' product_rate_plan_charge_dict
             product_rate_plan_charge_tier_dict
             (idict_get_default product_rate_plan_dict product_id []) of
        Inl e \<Rightarrow> Inl e
      | Inr rp_list \<Rightarrow>
          (case combine_dictionaries rematch filter' product_rate_plan_dict
                  product_rate_plan_charge_dict product_rate_plan_charge_tier_dict items of
             Inl e \<Rightarrow> Inl e
           | Inr matching_rate_plans \<Rightarrow>
               Inr (\<lparr>p_dict = p, rate_plans = py_sorted score_key True rp_list\<rparr>
                    # matching_rate_plans)))"

text \<open>
  The whole operation, given what the four queries answered (products, product rate
  plans, charges, tiers; a query that fails raises before anything is joined).
\<close>

definition match_product_rate_plans ::
  "re_match \<Rightarrow> string str_dict \<Rightarrow> zobject list \<Rightarrow> zobject list \<Rightarrow> zobject list \<Rightarrow>
     zobject list \<Rightarrow> error + matched_product list"
where
  "match_product_rate_plans rematch filter' products prps prpcs prpcts =
     (case get_camel_converted_products products of
        Inl e \<Rightarrow> Inl e
      | Inr product_dict \<Rightarrow>
     (case get_camel_converted_product_rate_plans prps of
        Inl e \<Rightarrow> Inl e
      | Inr product_rate_plan_dict \<Rightarrow>
     (case get_camel_converted_product_rate_plan_charges prpcs of
        Inl e \<Rightarrow> Inl e
      | Inr product_rate_plan_charge_dict \<Rightarrow>
     (case get_camel_converted_product_rate_plan_charge_tiers prpcts of
        Inl e \<Rightarrow> Inl e
      | Inr product_rate_plan_charge_tier_dict \<Rightarrow>
          combine_dictionaries rematch filter' product_rate_plan_dict
            product_rate_plan_charge_dict product_rate_plan_charge_tier_dict product_dict))))"

section \<open>Pricing aggregation: \<open>get_product_rate_plan_charge_pricing\<close>\<close>

text \<open>
  A charge of the one rate plan, while the function works on it: its dictionary, and
  the list stored under the key \<open>"rate_charge_tiers"\<close> once the first loop has
  attached one.
\<close>

record priced_charge =
  charge_dict :: attr_dict
  rate_charge_tiers :: "attr_dict list option"

text \<open>
  \<^verbatim>\<open>
  for rpc_id, rpct_dict in product_rate_plan_charges_tier_dict.items():
      rate_charge_tiers = product_rate_plan_charge_dict[rpc_id]\
                          .get("rate_charge_tiers", [])
      rate_charge_tiers += rpct_dict.values()
      product_rate_plan_charge_dict[rpc_id]["rate_charge_tiers"] =\
                                                  rate_charge_tiers
  \<close>
  A charge dictionary that already holds a (string) value under that key cannot be
  extended by a list: \<open>TypeError\<close>.
\<close>

fun attach_tiers ::
  "priced_charge id_dict \<Rightarrow> attr_dict id_dict id_dict \<Rightarrow> error + priced_charge id_dict"
where
  "attach_tiers product_rate_plan_charge_dict [] = Inr product_rate_plan_charge_dict"
| "attach_tiers product_rate_plan_charge_dict ((rpc_id, rpct_dict) # items) =
     (case idict_get product_rate_plan_charge_dict rpc_id of
        None \<Rightarrow> Inl (KeyError (py_str rpc_id))
      | Some rpc \<Rightarrow>
          (case rate_charge_tiers rpc of
             Some tiers \<Rightarrow>
               attach_tiers
                 (idict_set product_rate_plan_charge_dict rpc_id
                    (rpc\<lparr>rate_charge_tiers := Some (tiers @ map snd rpct_dict)\<rparr>))
                 items
           | None \<Rightarrow>
               (case sdict_get (charge_dict rpc) ''rate_charge_tiers'' of
                  Some v \<Rightarrow> Inl TypeError
                | None \<Rightarrow>
                    attach_tiers
                      (idict_set product_rate_plan_charge_dict rpc_id
                         (rpc\<lparr>rate_charge_tiers := Some (map snd rpct_dict)\<rparr>))
                      items)))"

text \<open>
  \<open>float\<close> of a string is a builtin: the function takes it as \<open>py_float\<close>
  (\<open>Inl ValueError\<close> for a string that is no number). Prices are modelled as reals;
  the rounding of floating-point addition is not modelled.
\<close>

fun float_of :: "(string \<Rightarrow> error + real) \<Rightarrow> pyval \<Rightarrow> error + real" where
  "float_of py_float (PyStr s) = py_float s"
| "float_of py_float (PyInt n) = Inr (real_of_int n)"
| "float_of py_float (PyBool b) = Inr (if b then 1 else 0)"
| "float_of py_float PyNone = Inl TypeError"

fun lower_of :: "pyval \<Rightarrow> error + string" where
  \<comment> \<open>\<open>v.lower()\<close>\<close>
  "lower_of (PyStr s) = Inr (py_lower s)"
| "lower_of v = Inl (AttributeError ''lower'')"

text \<open>
  \<^verbatim>\<open>
  for rpct in rpc["rate_charge_tiers"]:
      is_overage_price = rpct["is_overage_price"]
      if not is_overage_price:
          price = price + float(rpct["price"])
  \<close>
\<close>

fun tiers_loop :: "(string \<Rightarrow> error + real) \<Rightarrow> real \<Rightarrow> attr_dict list \<Rightarrow> error + real" where
  "tiers_loop py_float price [] = Inr price"
| "tiers_loop py_float price (rpct # tiers) =
     (case sdict_get rpct ''is_overage_price'' of
        None \<Rightarrow> Inl (KeyError ''is_overage_price'')
      | Some is_overage_price \<Rightarrow>
          (if \<not> py_truthy is_overage_price
           then (case sdict_get rpct ''price'' of
                   None \<Rightarrow> Inl (KeyError ''price'')
                 | Some p \<Rightarrow>
                     (case float_of py_float p of
                        Inl e \<Rightarrow> Inl e
                      | Inr f \<Rightarrow> tiers_loop py_float (price + f) tiers))
           else tiers_loop py_float price tiers))"

definition tiers_of :: "priced_charge \<Rightarrow> error + attr_dict list" where
  \<comment> \<open>\<open>rpc["rate_charge_tiers"]\<close>, as the inner loop walks it: a string that stands
      under the key is walked character by character, and a character has no keys\<close>
  "tiers_of rpc =
     (case rate_charge_tiers rpc of
        Some tiers \<Rightarrow> Inr tiers
      | None \<Rightarrow>
          (case sdict_get (charge_dict rpc) ''rate_charge_tiers'' of
             None \<Rightarrow> Inl (KeyError ''rate_charge_tiers'')
           | Some (PyStr []) \<Rightarrow> Inr []
           | Some v \<Rightarrow> Inl TypeError))"

text \<open>
  \<^verbatim>\<open>
  pricing_dict = {}
  for _, rpc in product_rate_plan_charge_dict.items():
      charge_model = rpc["charge_model"].lower()
      charge_type = rpc["charge_type"].lower()
      pricing_dict[charge_model] = pricing_dict.get(charge_model, {})
      pricing_dict[charge_model][charge_type]\
          = pricing_dict[charge_model].get(charge_type, 0)
      price = pricing_dict[charge_model][charge_type]
      (tiers)
      pricing_dict[charge_model][charge_type] = price
  return pricing_dict
  \<close>
\<close>

fun aggregates_loop ::
  "(string \<Rightarrow> error + real) \<Rightarrow> real str_dict str_dict \<Rightarrow> priced_charge id_dict \<Rightarrow>
     error + real str_dict str_dict"
where
  "aggregates_loop py_float pricing_dict [] = Inr pricing_dict"
| "aggregates_loop py_float pricing_dict ((rpc_id, rpc) # items) =
     (case sdict_get (charge_dict rpc) ''charge_model'' of
        None \<Rightarrow> Inl (KeyError ''charge_model'')
      | Some m \<Rightarrow>
     (case lower_of m of
        Inl e \<Rightarrow> Inl e
      | Inr charge_model \<Rightarrow>
     (case sdict_get (charge_dict rpc) ''charge_type'' of
        None \<Rightarrow> Inl (KeyError ''charge_type'')
      | Some t \<Rightarrow>
     (case lower_of t of
        Inl e \<Rightarrow> Inl e
      | Inr charge_type \<Rightarrow>
     (case tiers_of rpc of
        Inl e \<Rightarrow> Inl e
      | Inr tiers \<Rightarrow>
     (case tiers_loop py_float
             (sdict_get_default (sdict_get_default pricing_dict charge_model []) charge_type 0)
             tiers of
        Inl e \<Rightarrow> Inl e
      | Inr price \<Rightarrow>
          aggregates_loop py_float
            (sdict_set pricing_dict charge_model
               (sdict_set (sdict_get_default pricing_dict charge_model []) charge_type price))
            items))))))"

text \<open>
  The whole operation, given what the charge query and the tier query answered.
\<close>

definition get_product_rate_plan_charge_pricing ::
  "(string \<Rightarrow> error + real) \<Rightarrow> pyval \<Rightarrow> zobject list \<Rightarrow> zobject list \<Rightarrow>
     error + real str_dict str_dict"
where
  "get_product_rate_plan_charge_pricing py_float product_rate_plan_id prpcs prpcts =
     (case get_camel_converted_product_rate_plan_charges prpcs of
        Inl e \<Rightarrow> Inl e
      | Inr products_rate_plan_charge_dict \<Rightarrow>
     (case idict_get products_rate_plan_charge_dict product_rate_plan_id of
        None \<Rightarrow> Inl (KeyError (py_str product_rate_plan_id))
      | Some product_rate_plan_charge_dict \<Rightarrow>
     (case get_camel_converted_product_rate_plan_charge_tiers prpcts of
        Inl e \<Rightarrow> Inl e
      | Inr product_rate_plan_charges_tier_dict \<Rightarrow>
     (case attach_tiers
             (map (\<lambda>(rpc_id, d). (rpc_id, \<lparr>charge_dict = d, rate_charge_tiers = None\<rparr>))
                product_rate_plan_charge_dict)
             product_rate_plan_charges_tier_dict of
        Inl e \<Rightarrow> Inl e
      | Inr attached \<Rightarrow> aggregates_loop py_float [] attached))))"

section \<open>The remote query gateway and the entity fetchers\<close>

text \<open>
  The billing service is outside the repository. A remote is what it answers to a query
  string: a result object, or the \<open>ZuoraException\<close> that \<open>call\<close> raises for any
  fault. A result object carries its \<open>records\<close> attribute or not.
\<close>

record query_result =
  records :: "zobject list option"

type_synonym remote = "string \<Rightarrow> error + query_result"

definition is_space :: "char \<Rightarrow> bool" where
  \<comment> \<open>the characters \<open>str.split()\<close> splits at\<close>
  "is_space c =
     (c = CHR '' '' \<or> c = CHR ''\<newline>'' \<or> c = CHR 0x09 \<or> c = CHR 0x0B \<or> c = CHR 0x0C \<or> c = CHR 0x0D)"

fun split_from :: "string \<Rightarrow> string \<Rightarrow> string list" where
  "split_from word [] = (if word = [] then [] else [word])"
| "split_from word (c # s) =
     (if is_space c then (if word = [] then split_from [] s else word # split_from [] s)
      else split_from (word @ [c]) s)"

definition py_split :: "string \<Rightarrow> string list" where
  \<comment> \<open>\<open>s.split()\<close>\<close>
  "py_split s = split_from [] s"

fun py_join :: "string \<Rightarrow> string list \<Rightarrow> string" where
  \<comment> \<open>\<open>sep.join(words)\<close>\<close>
  "py_join sep [] = []"
| "py_join sep [w] = w"
| "py_join sep (w # ws) = w @ sep @ py_join sep ws"

text \<open>
  \<^verbatim>\<open>
  def query(self, query_string):
      query_string = ' '.join(query_string.split())
      fn = self.client.service.query
      response = self.call(fn, queryString=query_string)
      return response
  \<close>
  The model returns the string that goes to the service together with the answer.
\<close>

definition query :: "remote \<Rightarrow> string \<Rightarrow> string \<times> (error + query_result)" where
  "query remote query_string =
     (let sent = py_join '' '' (py_split query_string) in (sent, remote sent))"

definition quoted :: "string \<Rightarrow> string" where
  \<comment> \<open>\<open>"'%s'" % s\<close>\<close>
  "quoted s = CHR 0x27 # s @ [CHR 0x27]"

definition text_lines :: "string list \<Rightarrow> string" where
  \<comment> \<open>a string literal that runs over several lines, given line by line\<close>
  "text_lines ls = py_join ''\<newline>'' ls"

text \<open>
  \<^verbatim>\<open>
  def get_account(self, user_id):
      qs = """
          SELECT Id FROM Account
          WHERE AccountNumber = '%s' or AccountNumber = 'A-%s'
          """ % (user_id, user_id)

      response = self.query(qs)
      if getattr(response, "records") and len(response.records) > 0:
          zAccount = response.records[0]
          return zAccount
      else:
          raise DoesNotExist("Unable to find Account for User ID %s"
                          % user_id)
  \<close>
  A fetcher returns the queries it has sent, in order, and its outcome.
\<close>

definition get_account :: "remote \<Rightarrow> pyval \<Rightarrow> string list \<times> (error + zobject)" where
  "get_account remote user_id =
     (let qs = text_lines
            ['''',
             ''            SELECT Id FROM Account'',
             ''            WHERE AccountNumber = '' @ quoted (py_str user_id)
               @ '' or AccountNumber = '' @ quoted (''A-'' @ py_str user_id),
             ''            ''];
          (sent, response) = query remote qs
      in ([sent],
          case response of
            Inl e \<Rightarrow> Inl e
          | Inr result \<Rightarrow>
              (case records result of
                 None \<Rightarrow> Inl (AttributeError ''records'')
               | Some [] \<Rightarrow>
                   Inl (DoesNotExist (''Unable to find Account for User ID '' @ py_str user_id))
               | Some (zAccount # rest) \<Rightarrow> Inr zAccount)))"

text \<open>
  The multi-entity fetchers build \<open>qs_filter\<close> from the arguments that are truthy, and
  query only when it is not empty; otherwise they return \<open>None\<close>, which is \<open>Inr None\<close>
  here.
  \<^verbatim>\<open>
  qs_filter = []
  if account_id:
      qs_filter.append("AccountId = '%s'" % account_id)
  if qs_filter:
      qs = """ SELECT ... FROM Invoice WHERE %s """ % " AND ".join(qs_filter)
      response = self.query(qs)
      zInvoices = response.records
      return zInvoices
  return None
  \<close>
\<close>

definition filter_clause :: "string \<Rightarrow> pyval \<Rightarrow> string list" where
  \<comment> \<open>\<open>if v: qs_filter.append("Name = '%s'" % v)\<close>\<close>
  "filter_clause name v = (if py_truthy v then [name @ '' = '' @ quoted (py_str v)] else [])"

definition fetch_records ::
  "remote \<Rightarrow> string \<Rightarrow> string list \<times> (error + zobject list option)" where
  \<comment> \<open>\<open>response = self.query(qs); return response.records\<close>\<close>
  "fetch_records remote qs =
     (let (sent, response) = query remote qs
      in ([sent],
          case response of
            Inl e \<Rightarrow> Inl e
          | Inr result \<Rightarrow>
              (case records result of
                 None \<Rightarrow> Inl (AttributeError ''records'')
               | Some zRecords \<Rightarrow> Inr (Some zRecords))))"

definition get_invoices :: "remote \<Rightarrow> pyval \<Rightarrow> string list \<times> (error + zobject list option)" where
  "get_invoices remote account_id =
     (let qs_filter = filter_clause ''AccountId'' account_id
      in if qs_filter \<noteq> []
         then fetch_records remote
                (text_lines
                   ['''',
                    ''                SELECT'',
                    ''                    AccountID, AdjustmentAmount, Amount,'',
                    ''                    Balance, CreatedDate, DueDate,'',
                    ''                    IncludesOneTime, IncludesRecurring, IncludesUsage,'',
                    ''                    InvoiceDate, InvoiceNumber,'',
                    ''                    PaymentAmount, RefundAmount, Status,'',
                    ''                    TargetDate'',
                    ''                FROM Invoice'',
                    ''                WHERE '' @ py_join '' AND '' qs_filter,
                    ''                ''])
         else ([], Inr None))"

definition get_invoice_payments ::
  "remote \<Rightarrow> pyval \<Rightarrow> pyval \<Rightarrow> string list \<times> (error + zobject list option)" where
  "get_invoice_payments remote invoice_id payment_id =
     (let qs_filter = filter_clause ''InvoiceId'' invoice_id @ filter_clause ''PaymentId'' payment_id
      in if qs_filter \<noteq> []
         then fetch_records remote
                (text_lines
                   ['''',
                    ''                SELECT'',
                    ''                    Amount, CreatedById, CreatedDate, InvoiceId, PaymentId,'',
                    ''                    RefundAmount, UpdatedById, UpdatedDate'',
                    ''                FROM InvoicePayment'',
                    ''                WHERE '' @ py_join '' AND '' qs_filter,
                    ''                ''])
         else ([], Inr None))"

definition get_payments :: "remote \<Rightarrow> pyval \<Rightarrow> string list \<times> (error + zobject list option)" where
  "get_payments remote account_id =
     (let qs_filter = filter_clause ''AccountId'' account_id
      in if qs_filter \<noteq> []
         then fetch_records remote
                (text_lines
                   ['''',
                    ''                SELECT'',
                    ''                    AccountID, AccountingCode, Amount,'',
                    ''                    AppliedCreditBalanceAmount, AuthTransactionId,'',
                    ''                    BankIdentificationNumber, CancelledOn, Comment,'',
                    ''                    CreatedById, CreatedDate, EffectiveDate, GatewayOrderId,'',
                    ''                    GatewayResponse, GatewayResponseCode, GatewayState,'',
                    ''                    MarkedForSubmissionOn,'',
                    ''                    PaymentMethodID, PaymentNumber, ReferenceId, RefundAmount,'',
                    ''                    SecondPaymentReferenceId, SettledOn, SoftDescriptor,'',
                    ''                    Status, SubmittedOn, TransferredToAccounting,'',
                    ''                    Type, UpdatedById, UpdatedDate'',
                    ''                FROM Payment'',
                    ''                WHERE '' @ py_join '' AND '' qs_filter,
                    ''                ''])
         else ([], Inr None))"

section \<open>The account builder: \<open>make_account\<close>\<close>

text \<open>
  What a \<open>create\<close> call returns: nothing, one result object, or a list of result
  objects. Its text (\<open>"%s" % response\<close>) is printed by the SOAP library; the builder
  takes the printer as \<open>show\<close>.
\<close>

datatype response = RespNone | RespObject zobject | RespList "zobject list"








section \<open>Notions used to state the properties of the engine\<close>

text \<open>
  For evaluations on concrete input, \<open>literal_match\<close> is what \<open>re.match\<close> with
  \<open>re.IGNORECASE\<close> does when the pattern consists of letters and digits only: such a
  pattern always compiles, and it matches when it is, up to letter case, the beginning
  of the subject.
\<close>

definition literal_match :: re_match where
  "literal_match pattern subject = Inr (prefix (py_lower pattern) (py_lower subject))"

text \<open>
  The parents of a fetch batch, as the join looks them up: the ids of the products, the
  ids of the rate plans, and the \<open>"id"\<close> entries of the charges. A child group has a
  parent when its key equals (\<open>==\<close>) one of them.
\<close>

definition has_parent :: "pyval list \<Rightarrow> pyval \<Rightarrow> bool" where
  "has_parent ids k = list_ex (\<lambda>i. py_eq k i) ids"

definition product_ids :: "attr_dict id_dict \<Rightarrow> pyval list" where
  "product_ids product_dict = map fst product_dict"

definition rate_plan_ids :: "attr_dict id_dict id_dict \<Rightarrow> pyval list" where
  "rate_plan_ids product_rate_plan_dict = concat (map (\<lambda>(product_id, prp_dict). map fst prp_dict) product_rate_plan_dict)"

definition charge_ids :: "attr_dict id_dict id_dict \<Rightarrow> pyval list" where
  "charge_ids product_rate_plan_charge_dict =
     concat (map (\<lambda>(prp_id, prpc_dict).
                    concat (map (\<lambda>(rpc_id, rpc). case sdict_get rpc ''id'' of None \<Rightarrow> [] | Some i \<Rightarrow> [i])
                              prpc_dict))
               product_rate_plan_charge_dict)"

definition drop_orphans :: "pyval list \<Rightarrow> 'v id_dict \<Rightarrow> 'v id_dict" where
  \<comment> \<open>the groups of a child dictionary whose key has a parent\<close>
  "drop_orphans ids d = filter (\<lambda>(k, v). has_parent ids k) d"

section \<open>The specification's reading of key normalization\<close>

text \<open>
  The specification says that a trailing custom-field marker is stripped from the key.
  \<open>strip_trailing_marker\<close> is that reading, to be compared with what
  \<open>normalize_key\<close> does.
\<close>

definition strip_trailing_marker :: "string \<Rightarrow> string" where
  "strip_trailing_marker raw =
     (if suffix ''__c'' raw then take (length raw - 3) raw else raw)"

text \<open>
  Lower-snake-case, position by position: \<open>underscored p s\<close> copies \<open>s\<close>, whose
  predecessor in the key is \<open>p\<close>, and writes an underscore before every upper-case
  letter that follows a lower-case letter or a digit, or that is followed by a
  lower-case letter (and follows a character other than a newline). \<open>snake_marks\<close>
  does so for a whole key, whose first character has no predecessor.
\<close>

fun underscored :: "char \<Rightarrow> string \<Rightarrow> string" where
  "underscored p [] = []"
| "underscored p (c # s) =
     (if is_upper c \<and>
         (is_lower p \<or> is_digit p \<or>
          (p \<noteq> CHR ''\<newline>'' \<and> (case s of [] \<Rightarrow> False | d # t \<Rightarrow> is_lower d)))
      then CHR ''_'' # c # underscored c s
      else c # underscored c s)"

definition snake_marks :: "string \<Rightarrow> string" where
  "snake_marks s = (case s of [] \<Rightarrow> [] | c # t \<Rightarrow> c # underscored c t)"

section \<open>Properties of key normalization\<close>

lemma is_upper_nat:
  "is_upper c \<longleftrightarrow> 65 \<le> (of_char c :: nat) \<and> (of_char c :: nat) \<le> 90"
  by (simp add: is_upper_def less_eq_char_def)

lemma char_lower_not_upper: "\<not> is_upper (char_lower c)"
proof (cases "is_upper c")
  case True
  then have r: "65 \<le> (of_char c :: nat)" "(of_char c :: nat) \<le> 90"
    by (simp_all add: is_upper_nat)
  then have "(of_char (char_of (of_char c + (32::nat))) :: nat) = of_char c + 32"
    by (simp add: of_char_of)
  with r True show ?thesis
    by (simp add: char_lower_def is_upper_nat)
next
  case False
  then show ?thesis by (simp add: char_lower_def)
qed

lemma char_lower_id: "\<not> is_upper c \<Longrightarrow> char_lower c = c"
  by (simp add: char_lower_def)

lemma py_lower_no_upper: "list_all (\<lambda>c. \<not> is_upper c) (py_lower s)"
  by (simp add: py_lower_def list_all_iff char_lower_not_upper)

lemma py_lower_id: "list_all (\<lambda>c. \<not> is_upper c) s \<Longrightarrow> py_lower s = s"
  by (induction s) (simp_all add: py_lower_def char_lower_id)

lemma all_cap_re_sub_id: "list_all (\<lambda>c. \<not> is_upper c) s \<Longrightarrow> all_cap_re_sub s = s"
  by (induction s rule: all_cap_re_sub.induct) simp_all

lemma first_cap_re_sub_id: "list_all (\<lambda>c. \<not> is_upper c) s \<Longrightarrow> first_cap_re_sub s = s"
  by (induction s rule: first_cap_re_sub.induct) simp_all

lemma convert_camel_id: "list_all (\<lambda>c. \<not> is_upper c) s \<Longrightarrow> convert_camel s = s"
  by (simp add: convert_camel_def first_cap_re_sub_id all_cap_re_sub_id py_lower_id)

lemma convert_camel_no_upper: "list_all (\<lambda>c. \<not> is_upper c) (convert_camel s)"
  by (simp add: convert_camel_def py_lower_no_upper)

lemma convert_camel_idem: "convert_camel (convert_camel s) = convert_camel s"
  by (rule convert_camel_id) (rule convert_camel_no_upper)

lemma py_replace_absent: "old \<noteq> [] \<Longrightarrow> \<not> py_in old s \<Longrightarrow> py_replace old new s = s"
  by (induction old new s rule: py_replace.induct) auto

lemma py_replace_skip:
  "old \<noteq> [] \<Longrightarrow> \<not> prefix old (c # s) \<Longrightarrow>
   py_replace old new (c # s) = c # py_replace old new s"
  by simp

lemma length_py_replace_le: "old \<noteq> [] \<Longrightarrow> length (py_replace old [] s) \<le> length s"
  by (induction old "[]::string" s rule: py_replace.induct) (auto simp: le_SucI)

lemma py_replace_present:
  "old \<noteq> [] \<Longrightarrow> py_in old s \<Longrightarrow> length (py_replace old [] s) < length s"
proof (induction old "[]::string" s rule: py_replace.induct)
  case (1 old)
  then show ?case by simp
next
  case (2 old c s)
  show ?case
  proof (cases "prefix old (c # s)")
    case True
    have "length (py_replace old [] (drop (length old) (c # s)))
            \<le> length (drop (length old) (c # s))"
      using "2.prems"(1) by (rule length_py_replace_le)
    also have "\<dots> < length (c # s)" using "2.prems"(1) by (cases old) auto
    finally show ?thesis using True "2.prems"(1) by simp
  next
    case False
    then show ?thesis using 2 by auto
  qed
qed

lemma py_replace_set: "old \<noteq> [] \<Longrightarrow> set (py_replace old [] s) \<subseteq> set s"
proof (induction old "[]::string" s rule: py_replace.induct)
  case (1 old)
  then show ?case by simp
next
  case (2 old c s)
  have "set (drop (length old) (c # s)) \<subseteq> set (c # s)" by (rule set_drop_subset)
  with 2 show ?case by (auto simp del: drop_Suc_Cons)
qed

lemma normalize_twice:
  "normalize_key (normalize_key k) = py_replace ''__c'' '''' (normalize_key k)"
proof -
  have "list_all (\<lambda>c. \<not> is_upper c) (normalize_key k)"
    by (simp add: normalize_key_def convert_camel_no_upper)
  moreover have "set (py_replace ''__c'' '''' (normalize_key k)) \<subseteq> set (normalize_key k)"
    by (rule py_replace_set) simp
  ultimately have "list_all (\<lambda>c. \<not> is_upper c) (py_replace ''__c'' '''' (normalize_key k))"
    by (auto simp: list_all_iff)
  then show ?thesis
    unfolding normalize_key_def[of "convert_camel _"]
    by (simp add: normalize_key_def convert_camel_id)
qed

lemma not_prefix_marker_append:
  assumes "\<not> prefix ''__c'' (c # x)"
  shows "\<not> prefix ''__c'' (c # x @ ''__c'')"
proof (cases x)
  case Nil
  then show ?thesis by simp
next
  case (Cons d y)
  show ?thesis
  proof (cases y)
    case Nil
    with Cons show ?thesis by simp
  next
    case (Cons e z)
    with assms \<open>x = d # y\<close> show ?thesis by simp
  qed
qed

lemma py_replace_trailing_marker:
  "\<not> py_in ''__c'' x \<Longrightarrow> py_replace ''__c'' '''' (x @ ''__c'') = x"
proof (induction x)
  case Nil
  show ?case by simp
next
  case (Cons c x)
  then have np: "\<not> prefix ''__c'' (c # x)" and nx: "\<not> py_in ''__c'' x" by simp_all
  have "\<not> prefix ''__c'' (c # x @ ''__c'')" using np by (rule not_prefix_marker_append)
  then have "py_replace ''__c'' '''' (c # x @ ''__c'') = c # py_replace ''__c'' '''' (x @ ''__c'')"
    by (intro py_replace_skip) simp_all
  with Cons.IH[OF nx] show ?case by (simp only: append_Cons)
qed

lemma strip_trailing_marker_cases:
  "(\<exists>x. raw = x @ ''__c'' \<and> strip_trailing_marker raw = x) \<or>
   (\<not> suffix ''__c'' raw \<and> strip_trailing_marker raw = raw)"
proof (cases "suffix ''__c'' raw")
  case True
  then obtain x where "raw = x @ ''__c''" by (auto simp: suffix_def)
  then show ?thesis by (simp add: strip_trailing_marker_def)
next
  case False
  then show ?thesis by (simp add: strip_trailing_marker_def)
qed

lemma replace_is_strip:
  assumes "\<not> py_in ''__c'' (strip_trailing_marker raw)"
  shows "py_replace ''__c'' '''' raw = strip_trailing_marker raw"
proof -
  from strip_trailing_marker_cases[of raw] show ?thesis
  proof
    assume "\<exists>x. raw = x @ ''__c'' \<and> strip_trailing_marker raw = x"
    then obtain x where x: "raw = x @ ''__c''" "strip_trailing_marker raw = x" by blast
    with assms have "\<not> py_in ''__c'' x" by simp
    then have "py_replace ''__c'' '''' (x @ ''__c'') = x" by (rule py_replace_trailing_marker)
    then show ?thesis using x by simp
  next
    assume a: "\<not> suffix ''__c'' raw \<and> strip_trailing_marker raw = raw"
    with assms have "\<not> py_in ''__c'' raw" by simp
    then have "py_replace ''__c'' '''' raw = raw" by (intro py_replace_absent) simp_all
    with a show ?thesis by simp
  qed
qed

subsection \<open>The two passes, position by position\<close>

lemma upper_not_lower: "is_upper c \<Longrightarrow> \<not> is_lower c"
  by (auto simp: is_upper_def is_lower_def less_eq_char_def)

lemma upper_not_digit: "is_upper c \<Longrightarrow> \<not> is_digit c"
  by (auto simp: is_upper_def is_digit_def less_eq_char_def)

lemma lower_not_upper: "is_lower c \<Longrightarrow> \<not> is_upper c"
  by (auto simp: is_upper_def is_lower_def less_eq_char_def)

lemma underscore_class: "\<not> is_upper CHR ''_''" "\<not> is_lower CHR ''_''" "\<not> is_digit CHR ''_''"
  by (simp_all add: is_upper_def is_lower_def is_digit_def less_eq_char_def)

lemma first_cap_re_sub_head: "\<exists>f. first_cap_re_sub (d # x) = d # f"
  by (cases "(d # x)" rule: first_cap_re_sub.cases) auto

lemma all_cap_upper: "is_upper b \<Longrightarrow> all_cap_re_sub (b # t) = b # all_cap_re_sub t"
  by (cases t) (auto dest: upper_not_lower upper_not_digit)

lemma all_cap_non_upper_next: "\<not> is_upper d \<Longrightarrow> all_cap_re_sub (a # d # t) = a # all_cap_re_sub (d # t)"
  by simp

lemma all_cap_run:
  "list_all is_lower run \<Longrightarrow> run \<noteq> [] \<Longrightarrow>
   all_cap_re_sub (run @ d # f) =
     (if is_upper d then run @ CHR ''_'' # d # all_cap_re_sub f else run @ all_cap_re_sub (d # f))"
proof (induction run)
  case Nil
  then show ?case by simp
next
  case (Cons c run)
  show ?case
  proof (cases run)
    case Nil
    with Cons.prems show ?thesis by simp
  next
    case (Cons e run')
    with Cons.prems have "is_lower e" by simp
    then have "\<not> is_upper e" by (rule lower_not_upper)
    then have "all_cap_re_sub (c # run @ d # f) = c # all_cap_re_sub (run @ d # f)"
      by (simp add: Cons)
    moreover have "all_cap_re_sub (run @ d # f) =
     (if is_upper d then run @ CHR ''_'' # d # all_cap_re_sub f else run @ all_cap_re_sub (d # f))"
      using Cons.prems Cons.IH by (simp add: Cons)
    ultimately show ?thesis by simp
  qed
qed

lemma underscored_run:
  "list_all is_lower tw \<Longrightarrow> underscored p (tw @ x) = tw @ underscored (last (p # tw)) x"
  by (induction tw arbitrary: p) (auto dest: lower_not_upper)


lemma two_passes_head:
  "all_cap_re_sub (first_cap_re_sub (a # s)) = a # underscored a s"
proof (induction "a # s" arbitrary: a s rule: first_cap_re_sub.induct)
  case (1 a b c s)
  show ?case
  proof (cases "a \<noteq> CHR ''\<newline>'' \<and> is_upper b \<and> is_lower c")
    case True
    then have ub: "is_upper b" and lc: "is_lower c" and an: "a \<noteq> CHR ''\<newline>''" by simp_all
    let ?tw = "takeWhile is_lower s" and ?dw = "dropWhile is_lower s"
    have run: "list_all is_lower (c # ?tw)"
      using lc by (simp add: list_all_iff) (meson set_takeWhileD)
    have F: "first_cap_re_sub (a # b # c # s)
               = a # CHR ''_'' # b # (c # ?tw) @ first_cap_re_sub ?dw"
      using True by simp
    have A1: "all_cap_re_sub (a # CHR ''_'' # b # (c # ?tw) @ first_cap_re_sub ?dw)
                = a # CHR ''_'' # b # all_cap_re_sub ((c # ?tw) @ first_cap_re_sub ?dw)"
      using ub lc by (simp add: underscore_class upper_not_lower upper_not_digit lower_not_upper)
    have U1: "underscored a (b # c # s) = CHR ''_'' # b # c # underscored c s"
      using True by (simp add: lower_not_upper)
    define l where "l = last (c # ?tw)"
    have U2: "underscored c s = ?tw @ underscored l ?dw"
    proof -
      have "underscored c (?tw @ ?dw) = ?tw @ underscored (last (c # ?tw)) ?dw"
        by (rule underscored_run) (simp add: list_all_iff, meson set_takeWhileD)
      then show ?thesis by (simp add: l_def)
    qed
    have ll: "is_lower l"
      unfolding l_def using run by (metis last_in_set list.distinct(1) list_all_iff)
    have core: "all_cap_re_sub ((c # ?tw) @ first_cap_re_sub ?dw)
                  = (c # ?tw) @ underscored l ?dw"
    proof (cases ?dw)
      case Nil
      have "list_all (\<lambda>x. \<not> is_upper x) (c # ?tw)"
        using run by (auto simp: list_all_iff dest: lower_not_upper)
      then have "all_cap_re_sub (c # ?tw) = c # ?tw" by (rule all_cap_re_sub_id)
      then show ?thesis by (simp add: Nil del: all_cap_re_sub.simps)
    next
      case (Cons d dw')
      have dl: "dropWhile is_lower (c # s) = d # dw'" using lc Cons by simp
      have ih: "all_cap_re_sub (first_cap_re_sub (d # dw')) = d # underscored d dw'"
        using "1.hyps"(1)[OF True dl] .
      obtain f where f: "first_cap_re_sub (d # dw') = d # f"
        using first_cap_re_sub_head by blast
      have split: "all_cap_re_sub ((c # ?tw) @ d # f) =
        (if is_upper d then (c # ?tw) @ CHR ''_'' # d # all_cap_re_sub f
         else (c # ?tw) @ all_cap_re_sub (d # f))"
        using run by (intro all_cap_run) simp_all
      from ih f have df: "all_cap_re_sub (d # f) = d # underscored d dw'" by simp
      show ?thesis
      proof (cases "is_upper d")
        case True
        with df have "all_cap_re_sub f = underscored d dw'" by (simp add: all_cap_upper)
        moreover have "underscored l (d # dw') = CHR ''_'' # d # underscored d dw'"
          using True ll by simp
        ultimately show ?thesis
          unfolding Cons f split using True by simp
      next
        case False
        then have "underscored l (d # dw') = d # underscored d dw'" by simp
        then show ?thesis
          unfolding Cons f split using False df by simp
      qed
    qed
    show ?thesis
      unfolding F A1 U1 U2 core by simp
  next
    case False
    have F: "first_cap_re_sub (a # b # c # s) = a # first_cap_re_sub (b # c # s)"
      using False by auto
    have ih: "all_cap_re_sub (first_cap_re_sub (b # c # s)) = b # underscored b (c # s)"
      using "1.hyps"(2)[OF False] by simp
    obtain f where f: "first_cap_re_sub (b # c # s) = b # f"
      using first_cap_re_sub_head by blast
    have Ff: "first_cap_re_sub (a # b # c # s) = a # b # f"
      by (simp only: F f)
    from ih f have bf: "all_cap_re_sub (b # f) = b # underscored b (c # s)"
      by (simp only:)
    show ?thesis
    proof (cases "(is_lower a \<or> is_digit a) \<and> is_upper b")
      case True
      then have ub: "is_upper b" by simp
      from bf ub have af: "all_cap_re_sub f = underscored b (c # s)"
        by (simp only: all_cap_upper list.inject)
      have L: "all_cap_re_sub (a # b # f) = a # CHR ''_'' # b # all_cap_re_sub f"
        using True by simp
      from True have la: "is_lower a \<or> is_digit a" by simp
      have R: "underscored a (b # c # s) = CHR ''_'' # b # underscored b (c # s)"
        using ub la by (auto simp del: underscored.simps simp add: underscored.simps [of a])
      show ?thesis by (simp only: Ff L R af)
    next
      case nt: False
      have L: "all_cap_re_sub (a # b # f) = a # all_cap_re_sub (b # f)"
        using nt by auto
      have "\<not> (is_upper b \<and>
               (is_lower a \<or> is_digit a \<or>
                (a \<noteq> CHR ''\<newline>'' \<and> (case c # s of [] \<Rightarrow> False | d # t \<Rightarrow> is_lower d))))"
        using nt False by auto
      then have R: "underscored a (b # c # s) = b # underscored b (c # s)"
        by (simp del: underscored.simps add: underscored.simps [of a])
      show ?thesis by (simp only: Ff L R bf)
    qed
  qed
next
  case (2 a b)
  show ?case by simp
next
  case (3 a)
  show ?case by simp
qed

lemma two_passes: "all_cap_re_sub (first_cap_re_sub s) = snake_marks s"
  by (cases s) (simp_all add: snake_marks_def two_passes_head)

text \<open>
  Claim C6, as the specification states it, fails: the normalizers remove every
  occurrence of \<open>__c\<close> from the raw key (\<open>attr[0].replace("__c", "")\<close>), not only a
  trailing one. For the raw key \<open>Plan__code__c\<close> the code emits \<open>planode\<close>, while
  stripping the trailing marker and converting gives \<open>plan__code\<close>.
\<close>

theorem normalize_key_not_trailing_strip:
  "normalize_key ''Plan__code__c'' = ''planode'' \<and>
   convert_camel (strip_trailing_marker ''Plan__code__c'') = ''plan__code'' \<and>
   normalize_key ''Plan__code__c'' \<noteq> convert_camel (strip_trailing_marker ''Plan__code__c'')"
  by code_simp

text \<open>
  Claim C6, amended. Every key the normalizers emit is the camel-to-snake conversion
  (\<open>first_cap_re\<close>, then \<open>all_cap_re\<close>, then \<open>lower()\<close>) of the raw key with every
  occurrence of \<open>__c\<close> removed; it holds no upper-case letter; \<open>ShortCode__c\<close>
  becomes \<open>short_code\<close>; for a raw key that carries the marker at its end only,
  the emitted key is the conversion of the key with the trailing marker stripped; and
  the two passes together write an underscore exactly where \<open>snake_marks\<close> does:
  before an upper-case letter that follows a lower-case letter or a digit, or that
  starts a capitalised word.
\<close>

theorem normalize_key_emits:
  "normalize_key raw
     = py_lower (all_cap_re_sub (first_cap_re_sub (py_replace ''__c'' '''' raw))) \<and>
   list_all (\<lambda>c. \<not> is_upper c) (normalize_key raw) \<and>
   normalize_key ''ShortCode__c'' = ''short_code'' \<and>
   (\<not> py_in ''__c'' (strip_trailing_marker raw) \<longrightarrow>
      normalize_key raw = convert_camel (strip_trailing_marker raw)) \<and>
   normalize_key raw = py_lower (snake_marks (py_replace ''__c'' '''' raw))"
proof (intro conjI impI)
  show "normalize_key raw = py_lower (snake_marks (py_replace ''__c'' '''' raw))"
    by (simp add: normalize_key_def convert_camel_def two_passes)
  show "normalize_key raw
          = py_lower (all_cap_re_sub (first_cap_re_sub (py_replace ''__c'' '''' raw)))"
    by (simp add: normalize_key_def convert_camel_def)
  show "list_all (\<lambda>c. \<not> is_upper c) (normalize_key raw)"
    by (simp add: normalize_key_def convert_camel_no_upper)
  show "normalize_key ''ShortCode__c'' = ''short_code''"
    by code_simp
  show "normalize_key raw = convert_camel (strip_trailing_marker raw)"
    if "\<not> py_in ''__c'' (strip_trailing_marker raw)"
    using replace_is_strip[OF that] by (simp add: normalize_key_def)
qed

theorem normalize_key_emits_witness:
  "\<not> py_in ''__c'' (strip_trailing_marker ''ShortCode__c'') \<and>
   normalize_key ''ShortCode__c'' = convert_camel (strip_trailing_marker ''ShortCode__c'') \<and>
   convert_camel (strip_trailing_marker ''ShortCode__c'') = ''short_code'' \<and>
   list_all (\<lambda>c. \<not> is_upper c) (normalize_key ''ShortCode__c'')"
proof -
  have h: "\<not> py_in ''__c'' (strip_trailing_marker ''ShortCode__c'')"
    by code_simp
  have v: "convert_camel (strip_trailing_marker ''ShortCode__c'') = ''short_code''"
    by code_simp
  from normalize_key_emits[of "''ShortCode__c''"] h v show ?thesis
    by blast
qed

text \<open>
  Claim C7, as the specification states it, fails: normalizing \<open>User_Country__c\<close>
  gives \<open>user__country\<close>, which holds \<open>__c\<close> again, and normalizing that gives
  \<open>userountry\<close>.
\<close>

theorem normalize_key_not_idempotent:
  "normalize_key ''User_Country__c'' = ''user__country'' \<and>
   normalize_key (normalize_key ''User_Country__c'') = ''userountry'' \<and>
   normalize_key (normalize_key ''User_Country__c'') \<noteq> normalize_key ''User_Country__c''"
  by code_simp

text \<open>
  Claim C7, amended. Normalizing a normalized key gives the same key exactly when the
  normalized key does not contain \<open>__c\<close>; and the camel-to-snake conversion alone is
  idempotent on every key.
\<close>

theorem normalize_key_idempotent_iff:
  "(normalize_key (normalize_key k) = normalize_key k
      \<longleftrightarrow> \<not> py_in ''__c'' (normalize_key k)) \<and>
   convert_camel (convert_camel k) = convert_camel k"
proof (rule conjI)
  show "normalize_key (normalize_key k) = normalize_key k
          \<longleftrightarrow> \<not> py_in ''__c'' (normalize_key k)"
  proof (cases "py_in ''__c'' (normalize_key k)")
    case True
    have "length (py_replace ''__c'' '''' (normalize_key k)) < length (normalize_key k)"
      by (rule py_replace_present) (simp_all add: True)
    then show ?thesis using True by (auto simp: normalize_twice)
  next
    case False
    then show ?thesis by (simp add: normalize_twice py_replace_absent)
  qed
  show "convert_camel (convert_camel k) = convert_camel k"
    by (rule convert_camel_idem)
qed

theorem normalize_key_idempotent_witness:
  "\<not> py_in ''__c'' (normalize_key ''ShortCode__c'') \<and>
   normalize_key (normalize_key ''ShortCode__c'') = normalize_key ''ShortCode__c''"
proof -
  have h: "\<not> py_in ''__c'' (normalize_key ''ShortCode__c'')"
    by code_simp
  with normalize_key_idempotent_iff[of "''ShortCode__c''"] show ?thesis
    by blast
qed

section \<open>Properties of the fetchers\<close>

text \<open>
  Claim C9. \<open>get_account("32432")\<close> sends one query, whose text after the
  whitespace is collapsed is
  \<open>SELECT Id FROM Account WHERE AccountNumber = '32432' or AccountNumber = 'A-32432'\<close>
  (the source spells the keyword \<open>or\<close>; up to letter case this is the clause the
  claim names). When the answer holds zero records it raises \<open>DoesNotExist\<close> with the
  message \<open>Unable to find Account for User ID 32432\<close>; when it holds at least one, it
  returns the first. (A fault of the call is passed on, and an answer without a
  \<open>records\<close> attribute raises \<open>AttributeError\<close>.)
\<close>

lemma get_account_32432_query:
  "py_join '' '' (py_split (text_lines
      ['''',
       ''            SELECT Id FROM Account'',
       ''            WHERE AccountNumber = '' @ quoted (py_str (PyStr ''32432''))
         @ '' or AccountNumber = '' @ quoted (''A-'' @ py_str (PyStr ''32432'')),
       ''            '']))
   = ''SELECT Id FROM Account WHERE AccountNumber = '' @ quoted ''32432''
       @ '' or AccountNumber = '' @ quoted ''A-32432''"
  by code_simp

theorem get_account_32432:
  "fst (get_account remote (PyStr ''32432'')) =
     [''SELECT Id FROM Account WHERE AccountNumber = '' @ quoted ''32432''
        @ '' or AccountNumber = '' @ quoted ''A-32432''] \<and>
   snd (get_account remote (PyStr ''32432'')) =
     (case remote (''SELECT Id FROM Account WHERE AccountNumber = '' @ quoted ''32432''
                     @ '' or AccountNumber = '' @ quoted ''A-32432'') of
        Inl e \<Rightarrow> Inl e
      | Inr result \<Rightarrow>
          (case records result of
             None \<Rightarrow> Inl (AttributeError ''records'')
           | Some [] \<Rightarrow> Inl (DoesNotExist ''Unable to find Account for User ID 32432'')
           | Some (zAccount # rest) \<Rightarrow> Inr zAccount)) \<and>
   map py_lower (fst (get_account remote (PyStr ''32432''))) =
     [py_lower (''SELECT Id FROM Account WHERE AccountNumber = '' @ quoted ''32432''
                  @ '' OR AccountNumber = '' @ quoted ''A-32432'')] \<and>
   snd (get_account (\<lambda>q. Inr \<lparr>records = Some []\<rparr>) (PyStr ''32432'')) =
     Inl (DoesNotExist ''Unable to find Account for User ID 32432'') \<and>
   snd (get_account (\<lambda>q. Inr \<lparr>records = Some (first # others)\<rparr>) (PyStr ''32432'')) =
     Inr first"
proof (intro conjI)
  show "fst (get_account remote (PyStr ''32432'')) =
     [''SELECT Id FROM Account WHERE AccountNumber = '' @ quoted ''32432''
        @ '' or AccountNumber = '' @ quoted ''A-32432'']"
    unfolding get_account_def query_def Let_def get_account_32432_query by simp
  show "snd (get_account remote (PyStr ''32432'')) =
     (case remote (''SELECT Id FROM Account WHERE AccountNumber = '' @ quoted ''32432''
                     @ '' or AccountNumber = '' @ quoted ''A-32432'') of
        Inl e \<Rightarrow> Inl e
      | Inr result \<Rightarrow>
          (case records result of
             None \<Rightarrow> Inl (AttributeError ''records'')
           | Some [] \<Rightarrow> Inl (DoesNotExist ''Unable to find Account for User ID 32432'')
           | Some (zAccount # rest) \<Rightarrow> Inr zAccount))"
    unfolding get_account_def query_def Let_def get_account_32432_query
    by (simp split: sum.split option.split list.split)
  show "map py_lower (fst (get_account remote (PyStr ''32432''))) =
     [py_lower (''SELECT Id FROM Account WHERE AccountNumber = '' @ quoted ''32432''
                  @ '' OR AccountNumber = '' @ quoted ''A-32432'')]"
    by code_simp
  show "snd (get_account (\<lambda>q. Inr \<lparr>records = Some []\<rparr>) (PyStr ''32432'')) =
     Inl (DoesNotExist ''Unable to find Account for User ID 32432'')"
    by code_simp
  show "snd (get_account (\<lambda>q. Inr \<lparr>records = Some (first # others)\<rparr>) (PyStr ''32432'')) =
     Inr first"
    by code_simp
qed

text \<open>
  Claim C10. With every filter argument absent (\<open>None\<close>), \<open>get_invoices\<close>,
  \<open>get_payments\<close> and \<open>get_invoice_payments\<close> send no query and return \<open>None\<close>,
  whatever the remote would answer. \<open>None\<close> is not the empty sequence: with a filter
  given and an answer of zero records, \<open>get_invoices\<close> sends one query and returns the
  empty sequence.
\<close>

theorem fetchers_without_filters:
  "get_invoices remote PyNone = ([], Inr None) \<and>
   get_payments remote PyNone = ([], Inr None) \<and>
   get_invoice_payments remote PyNone PyNone = ([], Inr None) \<and>
   length (fst (get_invoices (\<lambda>q. Inr \<lparr>records = Some []\<rparr>) (PyStr ''A1''))) = 1 \<and>
   snd (get_invoices (\<lambda>q. Inr \<lparr>records = Some []\<rparr>) (PyStr ''A1'')) = Inr (Some [])"
proof (intro conjI)
  show "get_invoices remote PyNone = ([], Inr None)"
    by (simp add: get_invoices_def filter_clause_def)
  show "get_payments remote PyNone = ([], Inr None)"
    by (simp add: get_payments_def filter_clause_def)
  show "get_invoice_payments remote PyNone PyNone = ([], Inr None)"
    by (simp add: get_invoice_payments_def filter_clause_def)
  show "length (fst (get_invoices (\<lambda>q. Inr \<lparr>records = Some []\<rparr>) (PyStr ''A1''))) = 1"
    by code_simp
  show "snd (get_invoices (\<lambda>q. Inr \<lparr>records = Some []\<rparr>) (PyStr ''A1'')) = Inr (Some [])"
    by code_simp
qed

section \<open>Properties of the account builder\<close>







section \<open>Properties of the matching engine\<close>

subsection \<open>Scoring\<close>

text \<open>
  Claim C1 does not hold for the code. The normalizer stores \<open>str(attr[1])\<close>, so a
  configured priority is a \<open>str\<close>; the score starts as that string, and the first
  matching filter field runs \<open>rp_dict["score"] += 1\<close> on it, which raises
  \<open>TypeError\<close>. Below: a rate plan with priority 1 and site \<open>run\<close>, filter
  \<open>{"site": "run"}\<close> (the claim's score is 2; the call raises); the same plan with no
  filter (the score is the string \<open>"1"\<close>); and the plan without a priority (the score
  is the number 1).
\<close>

theorem score_with_priority_and_match_raises:
  "match_product_rate_plans literal_match [(''site'', ''run'')]
     [[(''Id'', PyStr ''P1'')]]
     [[(''Id'', PyStr ''RP1''), (''ProductId'', PyStr ''P1''),
       (''Priority__c'', PyStr ''1''), (''Site__c'', PyStr ''run'')]]
     [] []
   = Inl TypeError \<and>
   match_product_rate_plans literal_match []
     [[(''Id'', PyStr ''P1'')]]
     [[(''Id'', PyStr ''RP1''), (''ProductId'', PyStr ''P1''),
       (''Priority__c'', PyStr ''1''), (''Site__c'', PyStr ''run'')]]
     [] []
   = Inr [\<lparr>p_dict = [(''id'', PyStr ''P1'')],
           rate_plans =
             [\<lparr>rp_dict = [(''id'', PyStr ''RP1''), (''product_id'', PyStr ''P1''),
                           (''priority'', PyStr ''1''), (''site'', PyStr ''run''),
                           (''score'', PyStr ''1'')],
               rate_plan_charges = []\<rparr>]\<rparr>] \<and>
   match_product_rate_plans literal_match [(''site'', ''run'')]
     [[(''Id'', PyStr ''P1'')]]
     [[(''Id'', PyStr ''RP1''), (''ProductId'', PyStr ''P1''), (''Site__c'', PyStr ''run'')]]
     [] []
   = Inr [\<lparr>p_dict = [(''id'', PyStr ''P1'')],
           rate_plans =
             [\<lparr>rp_dict = [(''id'', PyStr ''RP1''), (''product_id'', PyStr ''P1''),
                           (''site'', PyStr ''run''), (''score'', PyInt 1)],
               rate_plan_charges = []\<rparr>]\<rparr>]"
  by code_simp

subsection \<open>Order of the charges\<close>

text \<open>
  Claim C4 does not hold for the code. A sort-order that is present is a \<open>str\<close>, the
  sentinel for a missing one is the \<open>int\<close> 999, and Python 2 orders every \<open>int\<close>
  before every \<open>str\<close>: the charge without a sort-order comes first, not last. Below:
  charges \<open>C1\<close>, \<open>C2\<close>, \<open>C3\<close> with sort-orders 2, none, 1 come out as \<open>C2\<close>,
  \<open>C3\<close>, \<open>C1\<close>.
\<close>

theorem charge_without_sort_order_comes_first:
  "match_product_rate_plans rematch []
     [[(''Id'', PyStr ''P1'')]]
     [[(''Id'', PyStr ''RP1''), (''ProductId'', PyStr ''P1'')]]
     [[(''Id'', PyStr ''C1''), (''ProductRatePlanId'', PyStr ''RP1''), (''SortOrder__c'', PyStr ''2'')],
      [(''Id'', PyStr ''C2''), (''ProductRatePlanId'', PyStr ''RP1'')],
      [(''Id'', PyStr ''C3''), (''ProductRatePlanId'', PyStr ''RP1''), (''SortOrder__c'', PyStr ''1'')]]
     []
   = Inr [\<lparr>p_dict = [(''id'', PyStr ''P1'')],
           rate_plans =
             [\<lparr>rp_dict = [(''id'', PyStr ''RP1''), (''product_id'', PyStr ''P1''),
                           (''score'', PyInt 0)],
               rate_plan_charges =
                 [\<lparr>rpc_dict = [(''id'', PyStr ''C2''), (''product_rate_plan_id'', PyStr ''RP1'')],
                   rate_plan_charge_tiers = []\<rparr>,
                  \<lparr>rpc_dict = [(''id'', PyStr ''C3''), (''product_rate_plan_id'', PyStr ''RP1''),
                                (''sort_order'', PyStr ''1'')],
                   rate_plan_charge_tiers = []\<rparr>,
                  \<lparr>rpc_dict = [(''id'', PyStr ''C1''), (''product_rate_plan_id'', PyStr ''RP1''),
                                (''sort_order'', PyStr ''2'')],
                   rate_plan_charge_tiers = []\<rparr>]\<rparr>]\<rparr>]"
  by code_simp

subsection \<open>Order of the rate plans\<close>








subsection \<open>Orphans\<close>

lemma idict_get_filter:
  assumes "\<forall>(k, v) \<in> set d. py_eq k x \<longrightarrow> P k"
  shows "idict_get (filter (\<lambda>(k, v). P k) d) x = idict_get d x"
  using assms by (induction d) auto

lemma idict_get_drop_orphans:
  assumes "x \<in> set ids"
  shows "idict_get (drop_orphans ids d) x = idict_get d x"
  unfolding drop_orphans_def
proof (rule idict_get_filter)
  show "\<forall>(k, v) \<in> set d. py_eq k x \<longrightarrow> has_parent ids k"
    using assms by (auto simp: has_parent_def list_ex_iff)
qed

lemma idict_get_in: "idict_get d k = Some v \<Longrightarrow> \<exists>k'. (k', v) \<in> set d"
  by (induction d) (auto split: if_splits)

lemma idict_get_default_in:
  assumes "x \<in> set (idict_get_default d k [])"
  shows "\<exists>k'. (k', idict_get_default d k []) \<in> set d"
proof (cases "idict_get d k")
  case None
  with assms show ?thesis by (simp add: idict_get_default_def)
next
  case (Some v)
  then show ?thesis using idict_get_in[OF Some] by (simp add: idict_get_default_def)
qed

lemma charges_loop_cong:
  assumes "\<And>rpc_id rpc i. (rpc_id, rpc) \<in> set items \<Longrightarrow> sdict_get rpc ''id'' = Some i \<Longrightarrow>
             idict_get td' i = idict_get td i"
  shows "charges_loop td' items = charges_loop td items"
  using assms
proof (induction items)
  case Nil
  show ?case by simp
next
  case (Cons a items)
  obtain rpc_id rpc where a: "a = (rpc_id, rpc)" by (cases a)
  have ih: "charges_loop td' items = charges_loop td items"
    by (rule Cons.IH) (auto intro: Cons.prems)
  show ?case
  proof (cases "sdict_get rpc ''id''")
    case None
    then show ?thesis by (simp add: a)
  next
    case (Some i)
    have "idict_get td' i = idict_get td i"
      by (rule Cons.prems[of rpc_id rpc]) (simp_all add: a Some)
    then show ?thesis by (simp add: a Some ih idict_get_default_def split: sum.split)
  qed
qed

lemma rate_plans_loop_cong:
  assumes "\<And>rid rp. (rid, rp) \<in> set items \<Longrightarrow>
             charges_loop td' (idict_get_default cd' rid [])
               = charges_loop td (idict_get_default cd rid [])"
  shows "rate_plans_loop rematch filter' cd' td' items
           = rate_plans_loop rematch filter' cd td items"
  using assms
proof (induction items)
  case Nil
  show ?case by simp
next
  case (Cons a items)
  obtain rid rp where a: "a = (rid, rp)" by (cases a)
  have ih: "rate_plans_loop rematch filter' cd' td' items
              = rate_plans_loop rematch filter' cd td items"
    by (rule Cons.IH) (auto intro: Cons.prems)
  have "charges_loop td' (idict_get_default cd' rid [])
          = charges_loop td (idict_get_default cd rid [])"
    by (rule Cons.prems[of rid rp]) (simp add: a)
  then show ?case by (simp add: a ih split: sum.split)
qed

lemma combine_dictionaries_cong:
  assumes "\<And>pid p. (pid, p) \<in> set pd \<Longrightarrow>
             rate_plans_loop rematch filter' cd' td' (idict_get_default prpd' pid [])
               = rate_plans_loop rematch filter' cd td (idict_get_default prpd pid [])"
  shows "combine_dictionaries rematch filter' prpd' cd' td' pd
           = combine_dictionaries rematch filter' prpd cd td pd"
  using assms
proof (induction pd)
  case Nil
  show ?case by simp
next
  case (Cons a pd)
  obtain pid p where a: "a = (pid, p)" by (cases a)
  have ih: "combine_dictionaries rematch filter' prpd' cd' td' pd
              = combine_dictionaries rematch filter' prpd cd td pd"
    by (rule Cons.IH) (auto intro: Cons.prems)
  have "rate_plans_loop rematch filter' cd' td' (idict_get_default prpd' pid [])
               = rate_plans_loop rematch filter' cd td (idict_get_default prpd pid [])"
    by (rule Cons.prems[of pid p]) (simp add: a)
  then show ?case by (simp add: a ih split: sum.split)
qed

lemma orphan_rate_plans_dropped:
  "combine_dictionaries rematch filter' (drop_orphans (product_ids pd) prpd) cd td pd
     = combine_dictionaries rematch filter' prpd cd td pd"
proof (rule combine_dictionaries_cong)
  fix pid p assume "(pid, p) \<in> set pd"
  then have "pid \<in> set (product_ids pd)" by (force simp: product_ids_def)
  then have "idict_get (drop_orphans (product_ids pd) prpd) pid = idict_get prpd pid"
    by (rule idict_get_drop_orphans)
  then show "rate_plans_loop rematch filter' cd td
               (idict_get_default (drop_orphans (product_ids pd) prpd) pid [])
             = rate_plans_loop rematch filter' cd td (idict_get_default prpd pid [])"
    by (simp add: idict_get_default_def)
qed

lemma orphan_charges_dropped:
  "combine_dictionaries rematch filter' prpd (drop_orphans (rate_plan_ids prpd) cd) td pd
     = combine_dictionaries rematch filter' prpd cd td pd"
proof (rule combine_dictionaries_cong, rule rate_plans_loop_cong)
  fix pid p rid rp
  assume r: "(rid, rp) \<in> set (idict_get_default prpd pid [])"
  from idict_get_default_in[OF r] obtain k'
    where "(k', idict_get_default prpd pid []) \<in> set prpd" ..
  with r have "rid \<in> set (rate_plan_ids prpd)"
    by (force simp: rate_plan_ids_def)
  then have "idict_get (drop_orphans (rate_plan_ids prpd) cd) rid = idict_get cd rid"
    by (rule idict_get_drop_orphans)
  then show "charges_loop td (idict_get_default (drop_orphans (rate_plan_ids prpd) cd) rid [])
             = charges_loop td (idict_get_default cd rid [])"
    by (simp add: idict_get_default_def)
qed

lemma orphan_tiers_dropped:
  "combine_dictionaries rematch filter' prpd cd (drop_orphans (charge_ids cd) td) pd
     = combine_dictionaries rematch filter' prpd cd td pd"
proof (rule combine_dictionaries_cong, rule rate_plans_loop_cong, rule charges_loop_cong)
  fix pid p rid rp rpc_id rpc i
  assume c: "(rpc_id, rpc) \<in> set (idict_get_default cd rid [])"
    and i: "sdict_get rpc ''id'' = Some i"
  from idict_get_default_in[OF c] obtain k'
    where "(k', idict_get_default cd rid []) \<in> set cd" ..
  with c i have "i \<in> set (charge_ids cd)"
    by (force simp: charge_ids_def)
  then show "idict_get (drop_orphans (charge_ids cd) td) i = idict_get td i"
    by (rule idict_get_drop_orphans)
qed

text \<open>
  Claim C5. In the join of \<open>match_product_rate_plans\<close>, the groups of rate plans whose
  product id equals no product of the batch, the groups of charges whose rate-plan id
  equals no rate plan of the batch, and the groups of tiers whose charge id equals no
  charge of the batch have no effect: dropping them from the dictionaries leaves the
  result the same, be it the joined output or an error. In particular a charge that
  refers to a rate plan that does not exist appears under no product and raises
  nothing: the call below returns the same with and without the charge \<open>C9\<close>.
\<close>

theorem orphans_have_no_effect:
  "combine_dictionaries rematch filter'
     (drop_orphans (product_ids product_dict) product_rate_plan_dict)
     product_rate_plan_charge_dict product_rate_plan_charge_tier_dict product_dict
   = combine_dictionaries rematch filter' product_rate_plan_dict
       product_rate_plan_charge_dict product_rate_plan_charge_tier_dict product_dict \<and>
   combine_dictionaries rematch filter' product_rate_plan_dict
     (drop_orphans (rate_plan_ids product_rate_plan_dict) product_rate_plan_charge_dict)
     product_rate_plan_charge_tier_dict product_dict
   = combine_dictionaries rematch filter' product_rate_plan_dict
       product_rate_plan_charge_dict product_rate_plan_charge_tier_dict product_dict \<and>
   combine_dictionaries rematch filter' product_rate_plan_dict product_rate_plan_charge_dict
     (drop_orphans (charge_ids product_rate_plan_charge_dict) product_rate_plan_charge_tier_dict)
     product_dict
   = combine_dictionaries rematch filter' product_rate_plan_dict
       product_rate_plan_charge_dict product_rate_plan_charge_tier_dict product_dict \<and>
   match_product_rate_plans rematch []
     [[(''Id'', PyStr ''P1'')]]
     [[(''Id'', PyStr ''RP1''), (''ProductId'', PyStr ''P1'')]]
     [[(''Id'', PyStr ''C1''), (''ProductRatePlanId'', PyStr ''RP1'')],
      [(''Id'', PyStr ''C9''), (''ProductRatePlanId'', PyStr ''RP9'')]]
     []
   = Inr [\<lparr>p_dict = [(''id'', PyStr ''P1'')],
           rate_plans =
             [\<lparr>rp_dict = [(''id'', PyStr ''RP1''), (''product_id'', PyStr ''P1''),
                           (''score'', PyInt 0)],
               rate_plan_charges =
                 [\<lparr>rpc_dict = [(''id'', PyStr ''C1''), (''product_rate_plan_id'', PyStr ''RP1'')],
                   rate_plan_charge_tiers = []\<rparr>]\<rparr>]\<rparr>] \<and>
   match_product_rate_plans rematch []
     [[(''Id'', PyStr ''P1'')]]
     [[(''Id'', PyStr ''RP1''), (''ProductId'', PyStr ''P1'')]]
     [[(''Id'', PyStr ''C1''), (''ProductRatePlanId'', PyStr ''RP1'')]]
     []
   = Inr [\<lparr>p_dict = [(''id'', PyStr ''P1'')],
           rate_plans =
             [\<lparr>rp_dict = [(''id'', PyStr ''RP1''), (''product_id'', PyStr ''P1''),
                           (''score'', PyInt 0)],
               rate_plan_charges =
                 [\<lparr>rpc_dict = [(''id'', PyStr ''C1''), (''product_rate_plan_id'', PyStr ''RP1'')],
                   rate_plan_charge_tiers = []\<rparr>]\<rparr>]\<rparr>]"
proof (intro conjI)
  show "combine_dictionaries rematch filter'
     (drop_orphans (product_ids product_dict) product_rate_plan_dict)
     product_rate_plan_charge_dict product_rate_plan_charge_tier_dict product_dict
   = combine_dictionaries rematch filter' product_rate_plan_dict
       product_rate_plan_charge_dict product_rate_plan_charge_tier_dict product_dict"
    by (rule orphan_rate_plans_dropped)
  show "combine_dictionaries rematch filter' product_rate_plan_dict
     (drop_orphans (rate_plan_ids product_rate_plan_dict) product_rate_plan_charge_dict)
     product_rate_plan_charge_tier_dict product_dict
   = combine_dictionaries rematch filter' product_rate_plan_dict
       product_rate_plan_charge_dict product_rate_plan_charge_tier_dict product_dict"
    by (rule orphan_charges_dropped)
  show "combine_dictionaries rematch filter' product_rate_plan_dict product_rate_plan_charge_dict
     (drop_orphans (charge_ids product_rate_plan_charge_dict) product_rate_plan_charge_tier_dict)
     product_dict
   = combine_dictionaries rematch filter' product_rate_plan_dict
       product_rate_plan_charge_dict product_rate_plan_charge_tier_dict product_dict"
    by (rule orphan_tiers_dropped)
  show "match_product_rate_plans rematch []
     [[(''Id'', PyStr ''P1'')]]
     [[(''Id'', PyStr ''RP1''), (''ProductId'', PyStr ''P1'')]]
     [[(''Id'', PyStr ''C1''), (''ProductRatePlanId'', PyStr ''RP1'')],
      [(''Id'', PyStr ''C9''), (''ProductRatePlanId'', PyStr ''RP9'')]]
     []
   = Inr [\<lparr>p_dict = [(''id'', PyStr ''P1'')],
           rate_plans =
             [\<lparr>rp_dict = [(''id'', PyStr ''RP1''), (''product_id'', PyStr ''P1''),
                           (''score'', PyInt 0)],
               rate_plan_charges =
                 [\<lparr>rpc_dict = [(''id'', PyStr ''C1''), (''product_rate_plan_id'', PyStr ''RP1'')],
                   rate_plan_charge_tiers = []\<rparr>]\<rparr>]\<rparr>]"
    by code_simp
  show "match_product_rate_plans rematch []
     [[(''Id'', PyStr ''P1'')]]
     [[(''Id'', PyStr ''RP1''), (''ProductId'', PyStr ''P1'')]]
     [[(''Id'', PyStr ''C1''), (''ProductRatePlanId'', PyStr ''RP1'')]]
     []
   = Inr [\<lparr>p_dict = [(''id'', PyStr ''P1'')],
           rate_plans =
             [\<lparr>rp_dict = [(''id'', PyStr ''RP1''), (''product_id'', PyStr ''P1''),
                           (''score'', PyInt 0)],
               rate_plan_charges =
                 [\<lparr>rpc_dict = [(''id'', PyStr ''C1''), (''product_rate_plan_id'', PyStr ''RP1'')],
                   rate_plan_charge_tiers = []\<rparr>]\<rparr>]\<rparr>]"
    by code_simp
qed

section \<open>Properties of the pricing aggregation\<close>

text \<open>
  Claim C2 does not hold for the code. The tier normalizer stores
  \<open>str(attr[1])\<close>, so the overage flag of a tier is the string \<open>"False"\<close> or
  \<open>"True"\<close>; both are truthy, \<open>if not is_overage_price\<close> never holds and no price is
  ever added. Below, the claim's example: two charges, both \<open>FlatFee\<close> and
  \<open>Recurring\<close>, with one tier each, of prices 10 and 5, neither flagged overage. The
  claim's total is 15; the code returns 0, whatever \<open>float\<close> does.
\<close>

theorem pricing_adds_no_flagged_tier:
  "get_product_rate_plan_charge_pricing py_float (PyStr ''RP1'')
     [[(''Id'', PyStr ''C1''), (''ProductRatePlanId'', PyStr ''RP1''),
       (''ChargeModel'', PyStr ''FlatFee''), (''ChargeType'', PyStr ''Recurring'')],
      [(''Id'', PyStr ''C2''), (''ProductRatePlanId'', PyStr ''RP1''),
       (''ChargeModel'', PyStr ''FlatFee''), (''ChargeType'', PyStr ''Recurring'')]]
     [[(''Id'', PyStr ''T1''), (''ProductRatePlanChargeId'', PyStr ''C1''),
       (''Price'', PyInt 10), (''IsOveragePrice'', PyBool False)],
      [(''Id'', PyStr ''T2''), (''ProductRatePlanChargeId'', PyStr ''C2''),
       (''Price'', PyInt 5), (''IsOveragePrice'', PyBool False)]]
   = Inr [(''flatfee'', [(''recurring'', 0)])]"
  by code_simp

end
